theory Spec2Isabelle
  imports Main "HOL-Library.Word" "HOL-Library.Sublist"
begin

section \<open>Strings and numbers of the host language\<close>

text \<open>
  A JavaScript string is a sequence of 16-bit code units. The literals of \<^verbatim>\<open>App.js\<close>
  that matter here are ASCII, so they are written as HOL strings and converted code
  unit by code unit.
\<close>

type_synonym jsstring = "16 word list"

definition js :: "string \<Rightarrow> jsstring" where
  "js cs = map of_char cs"

text \<open>
  \<^verbatim>\<open>String.prototype.trim\<close> removes, from both ends, the code units that ECMAScript
  calls WhiteSpace (TAB, VT, FF, SP, NBSP, ZWNBSP and the Unicode space separators) or
  LineTerminator (LF, CR, LS, PS). All of them lie in the basic plane, so the test is
  one on single code units.
\<close>

definition isWhiteSpace :: "16 word \<Rightarrow> bool" where
  "isWhiteSpace c =
     (c = 0x0009 \<or> c = 0x000A \<or> c = 0x000B \<or> c = 0x000C \<or> c = 0x000D \<or> c = 0x0020 \<or>
      c = 0x00A0 \<or> c = 0x1680 \<or> (0x2000 \<le> c \<and> c \<le> 0x200A) \<or> c = 0x2028 \<or>
      c = 0x2029 \<or> c = 0x202F \<or> c = 0x205F \<or> c = 0x3000 \<or> c = 0xFEFF)"

definition trim :: "jsstring \<Rightarrow> jsstring" where
  "trim s = rev (dropWhile isWhiteSpace (rev (dropWhile isWhiteSpace s)))"

text \<open>
  \<^verbatim>\<open>Date.now()\<close> yields an integral number of milliseconds; inside a template literal
  it is printed in decimal, with a leading minus sign below zero.
\<close>

definition digit :: "nat \<Rightarrow> 16 word" where
  "digit d = of_nat (48 + d)"

fun decimal :: "nat \<Rightarrow> jsstring" where
  "decimal n = (if n < 10 then [digit n] else decimal (n div 10) @ [digit (n mod 10)])"

declare decimal.simps [simp del]

definition NumberToString :: "int \<Rightarrow> jsstring" where
  "NumberToString n = (if n < 0 then js ''-'' @ decimal (nat (- n)) else decimal (nat n))"


section \<open>Data model\<close>

datatype role = User | Assistant

text \<open>
  A message object. The field \<^verbatim>\<open>error\<close> is present only on the message built in the
  \<^verbatim>\<open>catch\<close> branch; \<open>None\<close> stands for the absent field, which reads as
  \<^verbatim>\<open>undefined\<close>.
\<close>

record message =
  msg_id :: jsstring
  role :: role
  content :: jsstring
  ts :: jsstring
  error :: "bool option"

text \<open>
  The truth value a consumer obtains from \<^verbatim>\<open>m.error\<close>: \<^verbatim>\<open>MessageBubble\<close> tests it with
  \<^verbatim>\<open>error ? 'op-msg-error' : ''\<close>, and \<^verbatim>\<open>undefined\<close> is falsy.
\<close>

definition error_flag :: "message \<Rightarrow> bool" where
  "error_flag m = (case error m of None \<Rightarrow> False | Some b \<Rightarrow> b)"

text \<open>The four state cells of the component \<^verbatim>\<open>App\<close>.\<close>

record app_state =
  theme :: jsstring
  question :: jsstring
  isAsking :: bool
  messages :: "message list"

definition setTheme :: "(jsstring \<Rightarrow> jsstring) \<Rightarrow> app_state \<Rightarrow> app_state" where
  "setTheme f s = s\<lparr>theme := f (theme s)\<rparr>"

definition setQuestion :: "jsstring \<Rightarrow> app_state \<Rightarrow> app_state" where
  "setQuestion v s = s\<lparr>question := v\<rparr>"

definition setIsAsking :: "bool \<Rightarrow> app_state \<Rightarrow> app_state" where
  "setIsAsking v s = s\<lparr>isAsking := v\<rparr>"

definition setMessages :: "(message list \<Rightarrow> message list) \<Rightarrow> app_state \<Rightarrow> app_state" where
  "setMessages f s = s\<lparr>messages := f (messages s)\<rparr>"

text \<open>
  The system clock is read twice whenever a message is built: \<^verbatim>\<open>Date.now()\<close> for the
  identifier and \<^verbatim>\<open>new Date().toISOString()\<close> for the time stamp. Both readings are
  inputs from the environment.
\<close>

record clock =
  date_now :: int
  iso_string :: jsstring

datatype js_error = Thrown jsstring

type_synonym outcome = "js_error + jsstring"

type_synonym provider = "jsstring \<Rightarrow> outcome"


section \<open>The component\<close>

definition welcome_text :: jsstring where
  "welcome_text =
     js ''Hi! I'm your AI assistant. Ask me anything, and I'll do my best to help with clear, concise answers.''"

definition welcome_msg :: "jsstring \<Rightarrow> message" where
  "welcome_msg t = \<lparr>msg_id = js ''welcome'', role = Assistant, content = welcome_text, ts = t,
     error = None\<rparr>"

definition light :: jsstring where
  "light = js ''light''"

definition App_init :: "jsstring \<Rightarrow> app_state" where
  "App_init t = \<lparr>theme = light, question = [], isAsking = False, messages = [welcome_msg t]\<rparr>"

definition canned :: jsstring where
  "canned = js (''Here's a concise explanation:'' @ [CHR 0x0A, CHR 0x0A] @
     ''- React hooks let you use state and lifecycle features in functional components.'' @ [CHR 0x0A] @
     ''- Common hooks: useState for state, useEffect for side effects, useMemo/useCallback for memoization.'' @ [CHR 0x0A] @
     ''- Keep hooks at the top level and never inside conditions or loops.'' @ [CHR 0x0A, CHR 0x0A] @
     ''Would you like a small code example?'')"

text \<open>
  \<^verbatim>\<open>askAI\<close> awaits a timer that always fires and then returns the canned text: its
  promise is fulfilled, never rejected, and the argument is not used.
\<close>

definition askAI :: provider where
  "askAI q = Inr canned"

definition apology :: jsstring where
  "apology = js ''Sorry, something went wrong while fetching the answer. Please try again.''"

definition userMsg :: "jsstring \<Rightarrow> clock \<Rightarrow> message" where
  "userMsg q clk = \<lparr>msg_id = js ''u-'' @ NumberToString (date_now clk), role = User, content = q,
     ts = iso_string clk, error = None\<rparr>"

definition aiMsg :: "jsstring \<Rightarrow> clock \<Rightarrow> message" where
  "aiMsg answer clk = \<lparr>msg_id = js ''a-'' @ NumberToString (date_now clk), role = Assistant,
     content = answer, ts = iso_string clk, error = None\<rparr>"

definition errMsg :: "clock \<Rightarrow> message" where
  "errMsg clk = \<lparr>msg_id = js ''e-'' @ NumberToString (date_now clk), role = Assistant,
     content = apology, ts = iso_string clk, error = Some True\<rparr>"

text \<open>
  \<^verbatim>\<open>handleSubmit\<close> is an async function with one suspension point, the
  \<^verbatim>\<open>await askAI(q)\<close>. Its first part runs synchronously inside the submit event: it
  either returns at once (the guard) or updates the three cells and suspends, handing
  \<open>q\<close> to the answer provider. The handler reads the cells of the render it
  belongs to; the model takes that to be the current state, which is what React
  guarantees for discrete events such as submit. The call \<^verbatim>\<open>e?.preventDefault()\<close>
  acts on the event only and is left out; nothing in this part can throw, so its
  result is a plain value.
\<close>

definition handleSubmit_begin :: "clock \<Rightarrow> app_state \<Rightarrow> app_state \<times> jsstring option" where
  "handleSubmit_begin clk s =
     (let q = trim (question s) in
      if q = [] \<or> isAsking s then (s, None)
      else (setIsAsking True (setQuestion [] (setMessages (\<lambda>prev. prev @ [userMsg q clk]) s)),
            Some q))"

text \<open>
  The second part runs when the provider's promise settles. The \<^verbatim>\<open>try\<close> block
  rethrows a rejection of the awaited promise; \<^verbatim>\<open>catch\<close> handles every thrown value;
  \<^verbatim>\<open>finally\<close> runs on both paths. The result is the settlement of the promise that
  \<^verbatim>\<open>handleSubmit\<close> returned: \<open>Inr\<close> when fulfilled, \<open>Inl\<close> when rejected.
\<close>

definition try_block :: "outcome \<Rightarrow> clock \<Rightarrow> app_state \<Rightarrow> js_error + app_state" where
  "try_block r clk s =
     (case r of
        Inl err \<Rightarrow> Inl err
      | Inr answer \<Rightarrow> Inr (setMessages (\<lambda>prev. prev @ [aiMsg answer clk]) s))"

definition catch_block :: "js_error \<Rightarrow> clock \<Rightarrow> app_state \<Rightarrow> app_state" where
  "catch_block err clk s = setMessages (\<lambda>prev. prev @ [errMsg clk]) s"

definition finally_block :: "app_state \<Rightarrow> app_state" where
  "finally_block s = setIsAsking False s"

definition handleSubmit_resume :: "outcome \<Rightarrow> clock \<Rightarrow> app_state \<Rightarrow> js_error + app_state" where
  "handleSubmit_resume r clk s =
     (case try_block r clk s of
        Inl err \<Rightarrow> Inr (finally_block (catch_block err clk s))
      | Inr s' \<Rightarrow> Inr (finally_block s'))"

definition toggle_fn :: "jsstring \<Rightarrow> jsstring" where
  "toggle_fn t = (if t = light then light else light)"

definition toggleTheme :: "app_state \<Rightarrow> app_state" where
  "toggleTheme s = setTheme toggle_fn s"


section \<open>Sessions\<close>

text \<open>
  A session is the state of the component together with the questions of the
  suspended \<^verbatim>\<open>handleSubmit\<close> calls, oldest first. The events are those the page can
  deliver: an edit of the textarea, a submit, the settlement of the oldest outstanding
  provider call, and a click on the theme button.
\<close>

record session =
  app :: app_state
  pending :: "jsstring list"

datatype event = Change jsstring | Submit clock | Settle clock | ToggleTheme

definition init :: "jsstring \<Rightarrow> session" where
  "init t = \<lparr>app = App_init t, pending = []\<rparr>"

fun step :: "provider \<Rightarrow> event \<Rightarrow> session \<Rightarrow> session" where
  "step p (Change v) \<sigma> = \<sigma>\<lparr>app := setQuestion v (app \<sigma>)\<rparr>"
| "step p (Submit clk) \<sigma> =
     (case handleSubmit_begin clk (app \<sigma>) of
        (s', None) \<Rightarrow> \<sigma>\<lparr>app := s'\<rparr>
      | (s', Some q) \<Rightarrow> \<lparr>app = s', pending = pending \<sigma> @ [q]\<rparr>)"
| "step p (Settle clk) \<sigma> =
     (case pending \<sigma> of
        [] \<Rightarrow> \<sigma>
      | q # qs \<Rightarrow>
          (case handleSubmit_resume (p q) clk (app \<sigma>) of
             Inl err \<Rightarrow> \<sigma>\<lparr>pending := qs\<rparr>
           | Inr s' \<Rightarrow> \<lparr>app = s', pending = qs\<rparr>))"
| "step p ToggleTheme \<sigma> = \<sigma>\<lparr>app := toggleTheme (app \<sigma>)\<rparr>"

fun run :: "provider \<Rightarrow> event list \<Rightarrow> session \<Rightarrow> session" where
  "run p [] \<sigma> = \<sigma>"
| "run p (e # es) \<sigma> = run p es (step p e \<sigma>)"


section \<open>Basic facts\<close>

lemmas setters = setTheme_def setQuestion_def setIsAsking_def setMessages_def

lemma trim_closure: "trim (js ''  What is a closure?  '') = js ''What is a closure?''"
  by (simp add: trim_def js_def isWhiteSpace_def)

lemma trim_blank: "trim (js ''   '') = []"
  by (simp add: trim_def js_def isWhiteSpace_def)


section \<open>The initial state\<close>

text \<open>
  C6. Initially the conversation consists of exactly one message, the assistant's
  welcome; the draft is the empty string; no request is in flight (and no call of the
  provider is outstanding).
\<close>

theorem initial_state:
  "messages (app (init t)) = [welcome_msg t] \<and> length (messages (app (init t))) = 1 \<and>
   role (welcome_msg t) = Assistant \<and> content (welcome_msg t) = welcome_text \<and>
   question (app (init t)) = [] \<and> isAsking (app (init t)) = False \<and> pending (init t) = []"
  by (simp add: init_def App_init_def welcome_msg_def)


section \<open>The stub provider\<close>

text \<open>
  C7. \<^verbatim>\<open>askAI\<close> resolves with the same canned answer for every pair of questions: its
  result does not depend on its argument.
\<close>

theorem askAI_constant: "askAI q1 = askAI q2 \<and> askAI q1 = Inr canned"
  by (simp add: askAI_def)


section \<open>Submitting\<close>

text \<open>
  C1. When the trimmed draft is non-empty and no request is in flight, a submit
  appends exactly one message, a user message whose content is the trimmed draft,
  clears the draft and sets the in-flight flag. The provider is only handed the
  trimmed text: the resulting state is the same for every provider, so the message is
  there before any answer is known.
\<close>

theorem submit_accepted:
  assumes "trim (question (app \<sigma>)) \<noteq> []" and "\<not> isAsking (app \<sigma>)"
  shows "messages (app (step p (Submit clk) \<sigma>)) =
           messages (app \<sigma>) @ [userMsg (trim (question (app \<sigma>))) clk] \<and>
         role (userMsg (trim (question (app \<sigma>))) clk) = User \<and>
         content (userMsg (trim (question (app \<sigma>))) clk) = trim (question (app \<sigma>)) \<and>
         question (app (step p (Submit clk) \<sigma>)) = [] \<and>
         isAsking (app (step p (Submit clk) \<sigma>)) = True \<and>
         pending (step p (Submit clk) \<sigma>) = pending \<sigma> @ [trim (question (app \<sigma>))] \<and>
         step p (Submit clk) \<sigma> = step p' (Submit clk) \<sigma> \<and>
         handleSubmit_begin clk (app \<sigma>) =
           (app (step p (Submit clk) \<sigma>), Some (trim (question (app \<sigma>))))"
  using assms by (simp add: handleSubmit_begin_def Let_def setters userMsg_def)

theorem submit_accepted_witness:
  "trim (question (app (step askAI (Change (js ''  What is a closure?  '')) (init [])))) \<noteq> [] \<and>
   \<not> isAsking (app (step askAI (Change (js ''  What is a closure?  '')) (init []))) \<and>
   messages (app (step askAI (Submit \<lparr>date_now = 1700000000000, iso_string = []\<rparr>)
       (step askAI (Change (js ''  What is a closure?  '')) (init [])))) =
     [welcome_msg [],
      userMsg (js ''What is a closure?'') \<lparr>date_now = 1700000000000, iso_string = []\<rparr>] \<and>
   question (app (step askAI (Submit \<lparr>date_now = 1700000000000, iso_string = []\<rparr>)
       (step askAI (Change (js ''  What is a closure?  '')) (init [])))) = [] \<and>
   isAsking (app (step askAI (Submit \<lparr>date_now = 1700000000000, iso_string = []\<rparr>)
       (step askAI (Change (js ''  What is a closure?  '')) (init []))))"
proof -
  let ?s = "step askAI (Change (js ''  What is a closure?  '')) (init [])"
  have q: "question (app ?s) = js ''  What is a closure?  ''"
    by (simp add: init_def App_init_def setters)
  have h1: "trim (question (app ?s)) \<noteq> []"
    by (simp only: q trim_closure) (simp add: js_def)
  have h2: "\<not> isAsking (app ?s)"
    by (simp add: init_def App_init_def setters)
  have m: "messages (app ?s) = [welcome_msg []]"
    by (simp add: init_def App_init_def setters)
  from submit_accepted [OF h1 h2, of askAI "\<lparr>date_now = 1700000000000, iso_string = []\<rparr>" askAI]
  show ?thesis using h1 h2 by (simp only: q trim_closure m) simp
qed

text \<open>
  C4. A submit whose draft trims to the empty string, or that arrives while a request
  is in flight, changes nothing: the conversation, the draft, the in-flight flag and
  the outstanding calls are as before, the provider is not called, and the handler
  returns normally.
\<close>

theorem submit_rejected:
  assumes "trim (question (app \<sigma>)) = [] \<or> isAsking (app \<sigma>)"
  shows "step p (Submit clk) \<sigma> = \<sigma> \<and> handleSubmit_begin clk (app \<sigma>) = (app \<sigma>, None)"
  using assms by (auto simp add: handleSubmit_begin_def Let_def)

theorem submit_rejected_witness:
  "trim (question (app (step askAI (Change (js ''   '')) (init [])))) = [] \<and>
   step askAI (Submit \<lparr>date_now = 5, iso_string = []\<rparr>) (step askAI (Change (js ''   '')) (init []))
     = step askAI (Change (js ''   '')) (init []) \<and>
   isAsking (app \<lparr>app = \<lparr>theme = light, question = js ''X'', isAsking = True,
       messages = [welcome_msg []]\<rparr>, pending = [js ''Y'']\<rparr>) \<and>
   step askAI (Submit \<lparr>date_now = 5, iso_string = []\<rparr>)
      \<lparr>app = \<lparr>theme = light, question = js ''X'', isAsking = True,
       messages = [welcome_msg []]\<rparr>, pending = [js ''Y'']\<rparr>
     = \<lparr>app = \<lparr>theme = light, question = js ''X'', isAsking = True,
       messages = [welcome_msg []]\<rparr>, pending = [js ''Y'']\<rparr>"
proof -
  let ?s = "step askAI (Change (js ''   '')) (init [])"
  let ?t = "\<lparr>app = \<lparr>theme = light, question = js ''X'', isAsking = True,
       messages = [welcome_msg []]\<rparr>, pending = [js ''Y'']\<rparr>"
  have q: "question (app ?s) = js ''   ''"
    by (simp add: init_def App_init_def setters)
  have h1: "trim (question (app ?s)) = []"
    by (simp only: q trim_blank)
  have h2: "isAsking (app ?t)" by simp
  from submit_rejected [of ?s askAI "\<lparr>date_now = 5, iso_string = []\<rparr>"] h1
       submit_rejected [of ?t askAI "\<lparr>date_now = 5, iso_string = []\<rparr>"] h2
  show ?thesis by blast
qed


section \<open>Settling\<close>

text \<open>
  C2. When the provider call of an accepted submission resolves with an answer,
  \<^verbatim>\<open>handleSubmit\<close> appends exactly one message: an assistant message with that answer
  as content and no error flag (the field is absent, so it reads as false). Afterwards
  the in-flight flag is false.
\<close>

theorem settle_success:
  assumes "pending \<sigma> = q # qs" and "p q = Inr answer"
  shows "messages (app (step p (Settle clk) \<sigma>)) = messages (app \<sigma>) @ [aiMsg answer clk] \<and>
     role (aiMsg answer clk) = Assistant \<and> content (aiMsg answer clk) = answer \<and>
     error (aiMsg answer clk) = None \<and> error_flag (aiMsg answer clk) = False \<and>
     isAsking (app (step p (Settle clk) \<sigma>)) = False \<and>
     question (app (step p (Settle clk) \<sigma>)) = question (app \<sigma>) \<and>
     pending (step p (Settle clk) \<sigma>) = qs \<and>
     handleSubmit_resume (Inr answer) clk (app \<sigma>) = Inr (app (step p (Settle clk) \<sigma>))"
  using assms
  by (simp add: handleSubmit_resume_def try_block_def finally_block_def setters aiMsg_def
      error_flag_def)

theorem settle_success_witness:
  "pending \<lparr>app = \<lparr>theme = light, question = [], isAsking = True,
       messages = [welcome_msg [], userMsg (js ''Y'') \<lparr>date_now = 10, iso_string = []\<rparr>]\<rparr>,
       pending = [js ''Y'']\<rparr> = js ''Y'' # [] \<and>
   askAI (js ''Y'') = Inr canned \<and>
   messages (app (step askAI (Settle \<lparr>date_now = 910, iso_string = []\<rparr>)
     \<lparr>app = \<lparr>theme = light, question = [], isAsking = True,
       messages = [welcome_msg [], userMsg (js ''Y'') \<lparr>date_now = 10, iso_string = []\<rparr>]\<rparr>,
       pending = [js ''Y'']\<rparr>)) =
     [welcome_msg [], userMsg (js ''Y'') \<lparr>date_now = 10, iso_string = []\<rparr>,
      aiMsg canned \<lparr>date_now = 910, iso_string = []\<rparr>] \<and>
   isAsking (app (step askAI (Settle \<lparr>date_now = 910, iso_string = []\<rparr>)
     \<lparr>app = \<lparr>theme = light, question = [], isAsking = True,
       messages = [welcome_msg [], userMsg (js ''Y'') \<lparr>date_now = 10, iso_string = []\<rparr>]\<rparr>,
       pending = [js ''Y'']\<rparr>)) = False"
proof -
  let ?s = "\<lparr>app = \<lparr>theme = light, question = [], isAsking = True,
       messages = [welcome_msg [], userMsg (js ''Y'') \<lparr>date_now = 10, iso_string = []\<rparr>]\<rparr>,
       pending = [js ''Y'']\<rparr>"
  have h1: "pending ?s = js ''Y'' # []" by simp
  have h2: "askAI (js ''Y'') = Inr canned" by (simp add: askAI_def)
  from settle_success [of ?s "js ''Y''" "[]" askAI canned
      "\<lparr>date_now = 910, iso_string = []\<rparr>", OF h1 h2]
  show ?thesis using h2 by simp
qed

text \<open>
  C3. When the provider call of an accepted submission fails, \<^verbatim>\<open>handleSubmit\<close>
  appends exactly one message: an assistant message with the fixed apology as content
  and the error flag set. Afterwards the in-flight flag is false, and the promise of
  \<^verbatim>\<open>handleSubmit\<close> is fulfilled: the failure does not reach the caller.
\<close>

theorem settle_failure:
  assumes "pending \<sigma> = q # qs" and "p q = Inl err"
  shows "messages (app (step p (Settle clk) \<sigma>)) = messages (app \<sigma>) @ [errMsg clk] \<and>
     role (errMsg clk) = Assistant \<and> content (errMsg clk) = apology \<and>
     error (errMsg clk) = Some True \<and> error_flag (errMsg clk) = True \<and>
     isAsking (app (step p (Settle clk) \<sigma>)) = False \<and>
     question (app (step p (Settle clk) \<sigma>)) = question (app \<sigma>) \<and>
     pending (step p (Settle clk) \<sigma>) = qs \<and>
     handleSubmit_resume (Inl err) clk (app \<sigma>) = Inr (app (step p (Settle clk) \<sigma>))"
  using assms
  by (simp add: handleSubmit_resume_def try_block_def catch_block_def finally_block_def setters
      errMsg_def error_flag_def)

theorem settle_failure_witness:
  "pending \<lparr>app = \<lparr>theme = light, question = [], isAsking = True,
       messages = [welcome_msg [], userMsg (js ''Y'') \<lparr>date_now = 10, iso_string = []\<rparr>]\<rparr>,
       pending = [js ''Y'']\<rparr> = js ''Y'' # [] \<and>
   messages (app (step (\<lambda>q. Inl (Thrown (js ''Failed to fetch'')))
     (Settle \<lparr>date_now = 910, iso_string = []\<rparr>)
     \<lparr>app = \<lparr>theme = light, question = [], isAsking = True,
       messages = [welcome_msg [], userMsg (js ''Y'') \<lparr>date_now = 10, iso_string = []\<rparr>]\<rparr>,
       pending = [js ''Y'']\<rparr>)) =
     [welcome_msg [], userMsg (js ''Y'') \<lparr>date_now = 10, iso_string = []\<rparr>,
      errMsg \<lparr>date_now = 910, iso_string = []\<rparr>] \<and>
   isAsking (app (step (\<lambda>q. Inl (Thrown (js ''Failed to fetch'')))
     (Settle \<lparr>date_now = 910, iso_string = []\<rparr>)
     \<lparr>app = \<lparr>theme = light, question = [], isAsking = True,
       messages = [welcome_msg [], userMsg (js ''Y'') \<lparr>date_now = 10, iso_string = []\<rparr>]\<rparr>,
       pending = [js ''Y'']\<rparr>)) = False"
proof -
  let ?s = "\<lparr>app = \<lparr>theme = light, question = [], isAsking = True,
       messages = [welcome_msg [], userMsg (js ''Y'') \<lparr>date_now = 10, iso_string = []\<rparr>]\<rparr>,
       pending = [js ''Y'']\<rparr>"
  let ?p = "\<lambda>q::jsstring. Inl (Thrown (js ''Failed to fetch'')) :: outcome"
  have h1: "pending ?s = js ''Y'' # []" by simp
  have h2: "?p (js ''Y'') = Inl (Thrown (js ''Failed to fetch''))" by simp
  from settle_failure [of ?s "js ''Y''" "[]" ?p "Thrown (js ''Failed to fetch'')"
      "\<lparr>date_now = 910, iso_string = []\<rparr>", OF h1 h2]
  show ?thesis by simp
qed


section \<open>Steps of a session\<close>

text \<open>
  What each event does to a session, with the component's definitions unfolded.
\<close>

lemma step_Submit_cases:
  "step p (Submit clk) \<sigma> = \<sigma> \<and> (trim (question (app \<sigma>)) = [] \<or> isAsking (app \<sigma>)) \<or>
   trim (question (app \<sigma>)) \<noteq> [] \<and> \<not> isAsking (app \<sigma>) \<and>
   step p (Submit clk) \<sigma> =
     \<lparr>app = (app \<sigma>)\<lparr>messages := messages (app \<sigma>) @ [userMsg (trim (question (app \<sigma>))) clk],
          question := [], isAsking := True\<rparr>,
      pending = pending \<sigma> @ [trim (question (app \<sigma>))]\<rparr>"
  by (simp add: handleSubmit_begin_def Let_def setters)

lemma step_Settle_Cons:
  "pending \<sigma> = q # qs \<Longrightarrow>
   step p (Settle clk) \<sigma> =
     \<lparr>app = (app \<sigma>)\<lparr>messages := messages (app \<sigma>) @
            [case p q of Inr answer \<Rightarrow> aiMsg answer clk | Inl err \<Rightarrow> errMsg clk],
          isAsking := False\<rparr>,
      pending = qs\<rparr>"
  by (simp add: handleSubmit_resume_def try_block_def catch_block_def finally_block_def setters
      split: sum.split)


section \<open>The conversation only grows\<close>

lemma step_prefix: "prefix (messages (app \<sigma>)) (messages (app (step p e \<sigma>)))"
proof (cases e)
  case (Change v)
  then show ?thesis by (simp add: setters)
next
  case (Submit clk)
  with step_Submit_cases [of p clk \<sigma>] show ?thesis by auto
next
  case (Settle clk)
  show ?thesis
  proof (cases "pending \<sigma>")
    case Nil
    with Settle show ?thesis by simp
  next
    case (Cons q qs)
    with Settle show ?thesis by (simp del: step.simps add: step_Settle_Cons [OF Cons])
  qed
next
  case ToggleTheme
  then show ?thesis by (simp add: toggleTheme_def setters)
qed

lemma run_prefix: "prefix (messages (app \<sigma>)) (messages (app (run p es \<sigma>)))"
proof (induction es arbitrary: \<sigma>)
  case Nil
  show ?case by simp
next
  case (Cons e es)
  have "prefix (messages (app \<sigma>)) (messages (app (step p e \<sigma>)))" by (rule step_prefix)
  also have "prefix \<dots> (messages (app (run p es (step p e \<sigma>))))" by (rule Cons.IH)
  finally show ?case by simp
qed

text \<open>
  C8. The conversation is append-only. Every event of a session, and so every run,
  leaves the conversation it finds as a prefix of the conversation it produces: each
  message that was there keeps its position and all its fields, and new messages come
  at the end. The same holds for the two parts of \<^verbatim>\<open>handleSubmit\<close> on every state:
  the part before the await, and the part after it for every outcome of the provider
  (an answer or a failure).
\<close>

theorem append_only:
  "prefix (messages (app \<sigma>)) (messages (app (step p e \<sigma>))) \<and>
   prefix (messages (app \<sigma>)) (messages (app (run p es \<sigma>))) \<and>
   prefix (messages s) (messages (fst (handleSubmit_begin clk s))) \<and>
   (\<exists>s'. handleSubmit_resume r clk s = Inr s' \<and> prefix (messages s) (messages s'))"
proof -
  have "prefix (messages s) (messages (fst (handleSubmit_begin clk s)))"
    by (simp add: handleSubmit_begin_def Let_def setters)
  moreover have "\<exists>s'. handleSubmit_resume r clk s = Inr s' \<and> prefix (messages s) (messages s')"
    by (cases r)
      (simp_all add: handleSubmit_resume_def try_block_def catch_block_def finally_block_def
        setters)
  ultimately show ?thesis using step_prefix run_prefix by blast
qed


section \<open>The theme\<close>

lemma toggle_fn_light: "toggle_fn x = light"
  by (simp add: toggle_fn_def)

lemma step_theme: "theme (app \<sigma>) = light \<Longrightarrow> theme (app (step p e \<sigma>)) = light"
proof (cases e)
  case (Submit clk)
  assume "theme (app \<sigma>) = light"
  with Submit step_Submit_cases [of p clk \<sigma>] show ?thesis by auto
next
  case (Settle clk)
  assume l: "theme (app \<sigma>) = light"
  show ?thesis
  proof (cases "pending \<sigma>")
    case Nil
    with Settle l show ?thesis by simp
  next
    case (Cons q qs)
    with Settle l show ?thesis by (simp del: step.simps add: step_Settle_Cons [OF Cons])
  qed
qed (simp_all add: toggleTheme_def setters toggle_fn_light)

lemma run_theme: "theme (app \<sigma>) = light \<Longrightarrow> theme (app (run p es \<sigma>)) = light"
  by (induction es arbitrary: \<sigma>) (simp_all add: step_theme)

lemma toggleTheme_fixed: "theme s = light \<Longrightarrow> toggleTheme s = s"
  by (simp add: toggleTheme_def setters toggle_fn_light)

lemma toggleTheme_funpow: "theme s = light \<Longrightarrow> (toggleTheme ^^ n) s = s"
  by (induction n) (simp_all add: toggleTheme_fixed)

text \<open>
  C10. The theme is \<^verbatim>\<open>'light'\<close> in every state that a run reaches from the initial
  state. The function that \<^verbatim>\<open>toggleTheme\<close> applies to the theme sends \<^verbatim>\<open>'light'\<close> and every
  other value to \<^verbatim>\<open>'light'\<close>, so calling \<^verbatim>\<open>toggleTheme\<close> any number of times on such a
  state gives the same state.
\<close>

theorem theme_constant:
  "theme (app (run p es (init t))) = light \<and> toggle_fn light = light \<and> toggle_fn x = light \<and>
   (toggleTheme ^^ n) (app (run p es (init t))) = app (run p es (init t))"
proof -
  have "theme (app (init t)) = light" by (simp add: init_def App_init_def)
  then have "theme (app (run p es (init t))) = light" by (rule run_theme)
  then show ?thesis by (simp add: toggle_fn_light toggleTheme_funpow)
qed


section \<open>Message contents\<close>

lemma step_content:
  assumes p: "\<And>q a. p q = Inr a \<Longrightarrow> a \<noteq> []"
    and inv: "[] \<notin> set (map content (messages (app \<sigma>)))"
  shows "[] \<notin> set (map content (messages (app (step p e \<sigma>))))"
proof (cases e)
  case (Change v)
  with inv show ?thesis by (simp add: setters)
next
  case (Submit clk)
  with inv step_Submit_cases [of p clk \<sigma>] show ?thesis by (auto simp: userMsg_def)
next
  case (Settle clk)
  show ?thesis
  proof (cases "pending \<sigma>")
    case Nil
    with Settle inv show ?thesis by simp
  next
    case (Cons q qs)
    have "content (case p q of Inr answer \<Rightarrow> aiMsg answer clk | Inl err \<Rightarrow> errMsg clk) \<noteq> []"
      using p [of q] by (auto simp: aiMsg_def errMsg_def apology_def js_def split: sum.split)
    with Settle inv show ?thesis by (auto simp del: step.simps simp add: step_Settle_Cons [OF Cons])
  qed
next
  case ToggleTheme
  with inv show ?thesis by (simp add: toggleTheme_def setters)
qed

lemma run_content:
  assumes p: "\<And>q a. p q = Inr a \<Longrightarrow> a \<noteq> []"
  shows "[] \<notin> set (map content (messages (app \<sigma>))) \<Longrightarrow>
    [] \<notin> set (map content (messages (app (run p es \<sigma>))))"
proof (induction es arbitrary: \<sigma>)
  case Nil
  then show ?case by simp
next
  case (Cons e es)
  from step_content [OF p Cons.prems] have "[] \<notin> set (map content (messages (app (step p e \<sigma>))))" by simp
  from Cons.IH [OF this] show ?case by simp
qed

lemma canned_nonempty: "canned \<noteq> []"
  by (simp add: canned_def js_def)

lemma welcome_nonempty: "welcome_text \<noteq> []"
  by (simp add: welcome_text_def js_def)

lemma apology_nonempty: "apology \<noteq> []"
  by (simp add: apology_def js_def)

text \<open>
  C9. In every state that a run of the component (with its own provider \<^verbatim>\<open>askAI\<close>)
  reaches from the initial state, no message of the conversation has the empty string
  as content. The welcome text, the canned answer and the apology are non-empty, and a
  user message carries a trimmed draft that passed the guard.
\<close>

theorem content_nonempty:
  "[] \<notin> set (map content (messages (app (run askAI es (init t))))) \<and>
   welcome_text \<noteq> [] \<and> canned \<noteq> [] \<and> apology \<noteq> []"
proof -
  have "[] \<notin> set (map content (messages (app (init t))))"
    by (simp add: init_def App_init_def welcome_msg_def welcome_nonempty [symmetric])
  moreover have "\<And>q a. askAI q = Inr a \<Longrightarrow> a \<noteq> []"
    using canned_nonempty by (auto simp: askAI_def)
  ultimately have "[] \<notin> set (map content (messages (app (run askAI es (init t)))))"
    using run_content [of askAI] by blast
  then show ?thesis using welcome_nonempty canned_nonempty apology_nonempty by simp
qed


section \<open>Identifiers\<close>

text \<open>
  C5. Identifiers are meant to be unique across the session: they are the keys under
  which the conversation is rendered (\<^verbatim>\<open>key={m.id}\<close>). The code builds them from
  the wall clock alone, \<^verbatim>\<open>u-${Date.now()}\<close> for a user message, and the wall clock can
  show the same millisecond twice. In the session below the user submits \<^verbatim>\<open>Y\<close>, the
  answer arrives 900 ms later, the clock is set back, and the user submits \<^verbatim>\<open>Z\<close> when
  the clock shows the millisecond of the first submission again. The conversation then
  holds four messages in call order, and its two user messages, with contents \<^verbatim>\<open>Y\<close>
  and \<^verbatim>\<open>Z\<close>, carry the same identifier \<^verbatim>\<open>u-1700000000000\<close>: the identifiers are not
  pairwise different.
\<close>

theorem duplicate_ids_on_repeated_clock:
  "map msg_id (messages (app (run askAI
     [Change (js ''Y''),
      Submit \<lparr>date_now = 1700000000000, iso_string = js ''2023-11-14T22:13:20.000Z''\<rparr>,
      Settle \<lparr>date_now = 1700000000900, iso_string = js ''2023-11-14T22:13:20.900Z''\<rparr>,
      Change (js ''Z''),
      Submit \<lparr>date_now = 1700000000000, iso_string = js ''2023-11-14T22:13:20.000Z''\<rparr>] (init [])))) =
     [js ''welcome'', js ''u-1700000000000'', js ''a-1700000000900'', js ''u-1700000000000''] \<and>
   map content (messages (app (run askAI
     [Change (js ''Y''),
      Submit \<lparr>date_now = 1700000000000, iso_string = js ''2023-11-14T22:13:20.000Z''\<rparr>,
      Settle \<lparr>date_now = 1700000000900, iso_string = js ''2023-11-14T22:13:20.900Z''\<rparr>,
      Change (js ''Z''),
      Submit \<lparr>date_now = 1700000000000, iso_string = js ''2023-11-14T22:13:20.000Z''\<rparr>] (init [])))) =
     [welcome_text, js ''Y'', canned, js ''Z''] \<and>
   map role (messages (app (run askAI
     [Change (js ''Y''),
      Submit \<lparr>date_now = 1700000000000, iso_string = js ''2023-11-14T22:13:20.000Z''\<rparr>,
      Settle \<lparr>date_now = 1700000000900, iso_string = js ''2023-11-14T22:13:20.900Z''\<rparr>,
      Change (js ''Z''),
      Submit \<lparr>date_now = 1700000000000, iso_string = js ''2023-11-14T22:13:20.000Z''\<rparr>] (init [])))) =
     [Assistant, User, Assistant, User] \<and>
   \<not> distinct (map msg_id (messages (app (run askAI
     [Change (js ''Y''),
      Submit \<lparr>date_now = 1700000000000, iso_string = js ''2023-11-14T22:13:20.000Z''\<rparr>,
      Settle \<lparr>date_now = 1700000000900, iso_string = js ''2023-11-14T22:13:20.900Z''\<rparr>,
      Change (js ''Z''),
      Submit \<lparr>date_now = 1700000000000, iso_string = js ''2023-11-14T22:13:20.000Z''\<rparr>] (init [])))))"
proof -
  let ?ms = "messages (app (run askAI
     [Change (js ''Y''),
      Submit \<lparr>date_now = 1700000000000, iso_string = js ''2023-11-14T22:13:20.000Z''\<rparr>,
      Settle \<lparr>date_now = 1700000000900, iso_string = js ''2023-11-14T22:13:20.900Z''\<rparr>,
      Change (js ''Z''),
      Submit \<lparr>date_now = 1700000000000, iso_string = js ''2023-11-14T22:13:20.000Z''\<rparr>] (init [])))"
  have ids: "map msg_id ?ms =
     [js ''welcome'', js ''u-1700000000000'', js ''a-1700000000900'', js ''u-1700000000000'']"
    by (simp add: init_def App_init_def welcome_msg_def handleSubmit_begin_def Let_def setters
        trim_def isWhiteSpace_def userMsg_def aiMsg_def askAI_def handleSubmit_resume_def
        try_block_def finally_block_def NumberToString_def decimal.simps digit_def js_def)
  have contents: "map content ?ms = [welcome_text, js ''Y'', canned, js ''Z'']"
    by (simp add: init_def App_init_def welcome_msg_def handleSubmit_begin_def Let_def setters
        trim_def isWhiteSpace_def userMsg_def aiMsg_def askAI_def handleSubmit_resume_def
        try_block_def finally_block_def js_def)
  have roles: "map role ?ms = [Assistant, User, Assistant, User]"
    by (simp add: init_def App_init_def welcome_msg_def handleSubmit_begin_def Let_def setters
        trim_def isWhiteSpace_def userMsg_def aiMsg_def askAI_def handleSubmit_resume_def
        try_block_def finally_block_def js_def)
  have "\<not> distinct (map msg_id ?ms)"
    by (simp only: ids) simp
  with ids contents roles show ?thesis by simp
qed

end
